theory Spec2Isabelle
  imports Complex_Main "HOL-Library.AList"
begin

section \<open>products-api: the identity-scoped session layer of \<open>server.ts\<close>\<close>

text \<open>
  The program is one file, \<open>src/projects/marketplace/products-api/src/server.ts\<close>: an
  Express application whose handlers close over a certificate-authority client
  (\<open>fabricCAServices\<close>, \<open>identityService\<close>), a plain object \<open>users\<close> and a default
  \<open>contract\<close>.

  What the handlers compute is embedded as functions. The libraries they call
  (fabric-ca-client, fabric-gateway, node's \<open>crypto\<close>) are parameters: each call is a
  function that returns \<open>Inr\<close> a value or \<open>Inl\<close> the error it throws (a rejected promise,
  under \<open>await\<close>, is a throw). The mutable object \<open>users\<close> is passed in and returned. A
  handler's result records the library calls it made, the lines it logged and how it
  ended.
\<close>

subsection \<open>Errors and responses\<close>

text \<open>
  A thrown value. The handlers read \<open>e.message\<close> and \<open>e.details\<close>; \<open>details\<close> is absent on a
  plain \<open>Error\<close>, a string on a gRPC service error and an array on a gateway error.
\<close>

datatype err_details = NoDetails | DetailsText string | DetailsList "string list"

record js_error =
  message :: string
  details :: err_details

definition TypeError :: "string \<Rightarrow> js_error" where
  "TypeError m = \<lparr>message = m, details = NoDetails\<rparr>"

text \<open>What \<open>res.send\<close> is given: a string, or an array (sent as JSON).\<close>

datatype res_body = Text string | Json "string list"

text \<open>A response: \<open>res.status(n)\<close> sets the status, which is 200 when it is never set.\<close>

record response =
  status :: nat
  body :: res_body

text \<open>
  How a request ends: a handler has sent a response; or the promise the \<open>async\<close> handler
  returns is rejected with an error that no \<open>catch\<close> of the handler took (nothing was
  sent); or the middleware called \<open>next(e)\<close>, so that no route handler ran and the error
  went to Express's error handler.
\<close>

datatype outcome = Responded response | Rejected js_error | NextError js_error

datatype log_entry =
    Info string
  | InfoErr string js_error
  | ErrorLog js_error

subsection \<open>The certificate authority (fabric-ca-client)\<close>

text \<open>\<open>key.toBytes()\<close> of an enrolment's key is the private key as PEM text.\<close>

datatype ICryptoKey = ICryptoKey (toBytes: string)

text \<open>The object \<open>enroll\<close> resolves to: \<open>{key, certificate, rootCertificate}\<close>.\<close>

record IEnrollResponse =
  key :: ICryptoKey
  certificate :: string
  rootCertificate :: string

record IRegisterRequest =
  reg_enrollmentID :: string
  reg_enrollmentSecret :: string
  affiliation :: string
  role :: string
  attrs :: "string list"
  maxEnrollments :: int

record IEnrollmentRequest =
  enrollmentID :: string
  enrollmentSecret :: string

text \<open>
  The three operations the handlers call, with the registrar \<open>'u\<close> they pass. \<open>getOne\<close>
  resolves to a service-response object \<open>'i\<close> (an object, hence truthy) or throws;
  \<open>register\<close> resolves to the enrolment secret.
\<close>

record ('i, 'u) ca_services =
  getOne :: "string \<Rightarrow> 'u \<Rightarrow> js_error + 'i"
  register :: "IRegisterRequest \<Rightarrow> 'u \<Rightarrow> js_error + string"
  enroll :: "IEnrollmentRequest \<Rightarrow> js_error + IEnrollResponse"

datatype ca_call =
    GetOne string
  | Register IRegisterRequest
  | Enroll IEnrollmentRequest

text \<open>
  A property of the library, which is not part of the program: fabric-ca-client's
  \<open>getOne\<close> throws when the enrolment id is the empty string.
\<close>

definition rejects_empty_id :: "('i, 'u) ca_services \<Rightarrow> 'u \<Rightarrow> bool" where
  "rejects_empty_id ca registrar =
     (case getOne ca [] registrar of Inl e \<Rightarrow> True | Inr found \<Rightarrow> False)"

subsection \<open>The object \<open>users\<close>\<close>

text \<open>
  \<open>const users = {}\<close> is an ordinary object: its own properties, in insertion order, and
  a prototype, which is \<open>Object.prototype\<close> until an assignment to \<open>__proto__\<close> replaces
  it. The only values the program ever assigns are enrolment objects, so \<open>proto = None\<close>
  stands for \<open>Object.prototype\<close> itself and \<open>proto = Some r\<close> for the enrolment object \<open>r\<close>
  (whose own prototype is \<open>Object.prototype\<close>).
\<close>

record users_object =
  own :: "(string \<times> IEnrollResponse) list"
  proto :: "IEnrollResponse option"

definition users_init :: users_object where
  "users_init = \<lparr>own = [], proto = None\<rparr>"

text \<open>The values a read \<open>users[k]\<close> can produce.\<close>

datatype js_value =
    Undefined
  | Str string
  | EnrollObj IEnrollResponse
  | KeyObj ICryptoKey
  | ObjectPrototype
  | BuiltinFn string

text \<open>The data properties of \<open>Object.prototype\<close> (\<open>__proto__\<close>, an accessor, is apart).\<close>

definition object_prototype_names :: "string list" where
  "object_prototype_names =
     [''constructor'', ''__defineGetter__'', ''__defineSetter__'', ''hasOwnProperty'',
      ''__lookupGetter__'', ''__lookupSetter__'', ''isPrototypeOf'',
      ''propertyIsEnumerable'', ''toString'', ''valueOf'', ''toLocaleString'']"

definition object_prototype_get :: "string \<Rightarrow> js_value" where
  "object_prototype_get k =
     (if k \<in> set object_prototype_names then BuiltinFn k else Undefined)"

text \<open>
  \<open>users[k]\<close>: an own property first; then the prototype chain, where \<open>__proto__\<close> is the
  accessor that returns the prototype, an enrolment object put there has its three
  fields, and \<open>Object.prototype\<close> ends the chain.
\<close>

definition js_get :: "users_object \<Rightarrow> string \<Rightarrow> js_value" where
  "js_get u k =
     (case map_of (own u) k of
        Some e \<Rightarrow> EnrollObj e
      | None \<Rightarrow>
          (if k = ''__proto__'' then
             (case proto u of None \<Rightarrow> ObjectPrototype | Some r \<Rightarrow> EnrollObj r)
           else
             (case proto u of
                None \<Rightarrow> object_prototype_get k
              | Some r \<Rightarrow>
                  (if k = ''key'' then KeyObj (key r)
                   else if k = ''certificate'' then Str (certificate r)
                   else if k = ''rootCertificate'' then Str (rootCertificate r)
                   else object_prototype_get k))))"

text \<open>
  \<open>users[k] = r\<close>: an own property is overwritten in place; otherwise the setter of
  \<open>__proto__\<close> makes \<open>r\<close> the prototype, and any other name becomes a new own property
  (the inherited properties are writable data properties).
\<close>

definition js_set :: "users_object \<Rightarrow> string \<Rightarrow> IEnrollResponse \<Rightarrow> users_object" where
  "js_set u k r =
     (if k \<in> fst ` set (own u) then u\<lparr>own := AList.update k r (own u)\<rparr>
      else if k = ''__proto__'' then u\<lparr>proto := Some r\<rparr>
      else u\<lparr>own := AList.update k r (own u)\<rparr>)"

text \<open>Truthiness, as \<open>if (v)\<close> and \<open>&&\<close> test it.\<close>

fun truthy :: "js_value \<Rightarrow> bool" where
  "truthy Undefined = False"
| "truthy (Str s) = (s \<noteq> [])"
| "truthy _ = True"

subsection \<open>Handler results\<close>

record handler_result =
  users_after :: users_object
  ca_calls :: "ca_call list"
  logged :: "log_entry list"
  ended :: outcome

subsection \<open>\<open>POST /signup\<close> and \<open>POST /login\<close>\<close>

record credentials_body =
  username :: string
  password :: string

text \<open>
  \<open>/signup\<close> (lines 145-167). \<open>getOne\<close> is inside a \<open>try\<close>; a throw leaves \<open>identityFound\<close>
  null. \<open>register\<close> is outside any \<open>try\<close>. The handler never touches \<open>users\<close>.
\<close>

definition post_signup ::
  "('i, 'u) ca_services \<Rightarrow> 'u \<Rightarrow> users_object \<Rightarrow> credentials_body \<Rightarrow> handler_result" where
  "post_signup ca registrar users b =
     (case getOne ca (username b) registrar of
        Inr identityFound \<Rightarrow>
          \<lparr>users_after = users, ca_calls = [GetOne (username b)], logged = [],
           ended = Responded \<lparr>status = 400, body = Text ''Username already taken''\<rparr>\<rparr>
      | Inl e \<Rightarrow>
          (let req = \<lparr>reg_enrollmentID = username b, reg_enrollmentSecret = password b,
                      affiliation = '''', role = ''client'', attrs = [],
                      maxEnrollments = - 1\<rparr>;
               calls = [GetOne (username b), Register req];
               lg = [InfoErr ''Identity not found, registering'' e]
           in case register ca req registrar of
                Inl e' \<Rightarrow>
                  \<lparr>users_after = users, ca_calls = calls, logged = lg, ended = Rejected e'\<rparr>
              | Inr r \<Rightarrow>
                  \<lparr>users_after = users, ca_calls = calls, logged = lg,
                   ended = Responded \<lparr>status = 200, body = Text ''OK''\<rparr>\<rparr>))"

text \<open>
  \<open>/login\<close> (lines 168-185). A throw of \<open>getOne\<close> is answered with 400; \<open>enroll\<close> is
  outside any \<open>try\<close>; on success \<open>users[username] = r\<close>.
\<close>

definition post_login ::
  "('i, 'u) ca_services \<Rightarrow> 'u \<Rightarrow> users_object \<Rightarrow> credentials_body \<Rightarrow> handler_result" where
  "post_login ca registrar users b =
     (case getOne ca (username b) registrar of
        Inl e \<Rightarrow>
          \<lparr>users_after = users, ca_calls = [GetOne (username b)],
           logged = [InfoErr ''Identity not found, registering'' e],
           ended = Responded \<lparr>status = 400, body = Text ''Username not found''\<rparr>\<rparr>
      | Inr identityFound \<Rightarrow>
          (let req = \<lparr>enrollmentID = username b, enrollmentSecret = password b\<rparr>;
               calls = [GetOne (username b), Enroll req]
           in case enroll ca req of
                Inl e' \<Rightarrow>
                  \<lparr>users_after = users, ca_calls = calls, logged = [], ended = Rejected e'\<rparr>
              | Inr r \<Rightarrow>
                  \<lparr>users_after = js_set users (username b) r, ca_calls = calls, logged = [],
                   ended = Responded \<lparr>status = 200, body = Text ''OK''\<rparr>\<rparr>))"

subsection \<open>Signers, identities and connect options\<close>

text \<open>
  \<open>crypto.createPrivateKey\<close> parses PEM text into a key object \<open>'k\<close> and throws on
  anything else; \<open>signers.newPrivateKeySigner\<close> makes the signer \<open>'s\<close> of a key object and
  throws on a key type it does not support.
\<close>

record ('k, 's) crypto_lib =
  createPrivateKey :: "string \<Rightarrow> js_error + 'k"
  newPrivateKeySigner :: "'k \<Rightarrow> js_error + 's"

record Identity =
  mspId :: string
  credentials :: string

record CallOptions =
  deadline :: int

text \<open>The shared gRPC client made at startup by \<open>newGrpcConnection\<close>.\<close>

record grpc_Client =
  peerEndpoint :: string
  tlsRootCert :: string

text \<open>
  The four option callbacks take no argument and read the clock, \<open>Date.now()\<close>, each
  time the gateway calls them: they are functions of that reading, in milliseconds.
\<close>

record 's ConnectOptions =
  client :: grpc_Client
  identity :: Identity
  signer :: 's
  evaluateOptions :: "int \<Rightarrow> CallOptions"
  endorseOptions :: "int \<Rightarrow> CallOptions"
  submitOptions :: "int \<Rightarrow> CallOptions"
  commitStatusOptions :: "int \<Rightarrow> CallOptions"

definition newIdentity :: "string \<Rightarrow> string \<Rightarrow> Identity" where
  "newIdentity m c = \<lparr>mspId = m, credentials = c\<rparr>"

definition newSigner :: "('k, 's) crypto_lib \<Rightarrow> string \<Rightarrow> js_error + 's" where
  "newSigner crypto privateKeyPem =
     (case createPrivateKey crypto privateKeyPem of
        Inl e \<Rightarrow> Inl e
      | Inr privateKey \<Rightarrow> newPrivateKeySigner crypto privateKey)"

text \<open>\<open>newConnectOptions\<close> (lines 23-47): the only step that can throw is \<open>newSigner\<close>.\<close>

definition newConnectOptions ::
  "('k, 's) crypto_lib \<Rightarrow> grpc_Client \<Rightarrow> string \<Rightarrow> string \<Rightarrow> string
     \<Rightarrow> js_error + 's ConnectOptions" where
  "newConnectOptions crypto c m creds privateKeyPem =
     (case newSigner crypto privateKeyPem of
        Inl e \<Rightarrow> Inl e
      | Inr s \<Rightarrow>
          Inr \<lparr>client = c,
               identity = newIdentity m creds,
               signer = s,
               evaluateOptions = (\<lambda>now. \<lparr>deadline = now + 5000\<rparr>),
               endorseOptions = (\<lambda>now. \<lparr>deadline = now + 15000\<rparr>),
               submitOptions = (\<lambda>now. \<lparr>deadline = now + 5000\<rparr>),
               commitStatusOptions = (\<lambda>now. \<lparr>deadline = now + 60000\<rparr>)\<rparr>)"

subsection \<open>Contracts\<close>

record config =
  mspID :: string
  channelName :: string
  chaincodeName :: string

text \<open>
  A contract handle is the gateway's connect options with the channel and the chaincode
  it was asked for.
\<close>

record 's Contract =
  gateway :: "'s ConnectOptions"
  network :: string
  chaincode :: string

text \<open>\<open>connect(o).getNetwork(config.channelName).getContract(config.chaincodeName)\<close>.\<close>

definition getContract :: "config \<Rightarrow> 's ConnectOptions \<Rightarrow> 's Contract" where
  "getContract cfg opts =
     \<lparr>gateway = opts, network = channelName cfg, chaincode = chaincodeName cfg\<rparr>"

text \<open>\<open>Buffer.from(v)\<close> for a string or \<open>undefined\<close> (\<open>None\<close>), which it rejects.\<close>

definition Buffer_from :: "string option \<Rightarrow> js_error + string" where
  "Buffer_from v =
     (case v of
        None \<Rightarrow> Inl (TypeError ''The first argument must be of type string or an instance of Buffer, ArrayBuffer, or Array or an Array-like Object. Received undefined'')
      | Some s \<Rightarrow> Inr s)"

subsection \<open>The session resolver (lines 186-208)\<close>

text \<open>
  \<open>v.certificate\<close> for a truthy \<open>v\<close> read from \<open>users\<close>: the field of an enrolment object,
  and \<open>undefined\<close> on the other values (\<open>Object.prototype\<close>, a builtin function, a key
  object and a string have no such property).
\<close>

fun certificate_of :: "js_value \<Rightarrow> string option" where
  "certificate_of (EnrollObj e) = Some (certificate e)"
| "certificate_of _ = None"

text \<open>\<open>v.key.toBytes()\<close>: on a value without \<open>key\<close> the read of \<open>toBytes\<close> throws.\<close>

fun key_toBytes :: "js_value \<Rightarrow> js_error + string" where
  "key_toBytes (EnrollObj e) = Inr (toBytes (key e))"
| "key_toBytes _ =
     Inl (TypeError ''Cannot read properties of undefined (reading toBytes)'')"

text \<open>
  What the middleware leaves behind: \<open>next()\<close> with \<open>req.contract\<close> set, or \<open>next(e)\<close>,
  after which no route handler runs and Express's error handler answers.
\<close>

datatype 's resolved = Next "'s Contract" | NextErr js_error

text \<open>
  The header \<open>x-user\<close> is \<open>None\<close> when the request has none. \<open>req.contract\<close> is first the
  default contract; the guard is \<open>user && users[user]\<close>; the arguments of
  \<open>newConnectOptions\<close> are evaluated left to right inside the \<open>try\<close>.
\<close>

definition session_resolver ::
  "('k, 's) crypto_lib \<Rightarrow> config \<Rightarrow> grpc_Client \<Rightarrow> 's Contract \<Rightarrow> users_object
     \<Rightarrow> string option \<Rightarrow> 's resolved" where
  "session_resolver crypto cfg grpcConn contract users x_user =
     (case x_user of
        None \<Rightarrow> Next contract
      | Some user \<Rightarrow>
          (if user \<noteq> [] \<and> truthy (js_get users user) then
             (case Buffer_from (certificate_of (js_get users user)) of
                Inl e \<Rightarrow> NextErr e
              | Inr cert \<Rightarrow>
                  (case key_toBytes (js_get users user) of
                     Inl e \<Rightarrow> NextErr e
                   | Inr pem \<Rightarrow>
                       (case newConnectOptions crypto grpcConn (mspID cfg) cert pem of
                          Inl e \<Rightarrow> NextErr e
                        | Inr connectOptions \<Rightarrow> Next (getContract cfg connectOptions))))
           else Next contract))"

subsection \<open>Request bodies and the ledger (fabric-gateway)\<close>

text \<open>
  A value of a parsed JSON body. A number is the value of the double \<open>JSON.parse\<close> made
  of it.
\<close>

datatype json =
    JNull
  | JBool bool
  | JNum rat
  | JStr string
  | JArr "json list"
  | JObj "(string \<times> json) list"

fun json_truthy :: "json \<Rightarrow> bool" where
  "json_truthy JNull = False"
| "json_truthy (JBool b) = b"
| "json_truthy (JNum x) = (x \<noteq> 0)"
| "json_truthy (JStr s) = (s \<noteq> [])"
| "json_truthy (JArr xs) = True"
| "json_truthy (JObj kvs) = True"

text \<open>The body of \<open>/evaluate\<close> and \<open>/submit\<close>; a field the body lacks reads \<open>undefined\<close>.\<close>

record tx_body =
  fcn :: "json option"
  args :: "json option"

text \<open>\<open>req.body.args || []\<close>.\<close>

definition args_or_empty :: "json option \<Rightarrow> json" where
  "args_or_empty a =
     (case a of
        None \<Rightarrow> JArr []
      | Some v \<Rightarrow> (if json_truthy v then v else JArr []))"

text \<open>
  The spread \<open>...v\<close> in a call: the elements of an array, the characters of a string, and
  a \<open>TypeError\<close> on a value that is not iterable.
\<close>

fun spread :: "json \<Rightarrow> js_error + json list" where
  "spread (JArr xs) = Inr xs"
| "spread (JStr s) = Inr (map (\<lambda>c. JStr [c]) s)"
| "spread _ =
     Inl (TypeError ''Spread syntax requires ...iterable[Symbol.iterator] to be a function'')"

text \<open>
  The two transaction calls of a contract: the transaction name (whatever \<open>req.body.fcn\<close>
  was), the arguments, and the result bytes or the error thrown.
\<close>

record 's ledger =
  evaluateTransaction :: "'s Contract \<Rightarrow> json option \<Rightarrow> json list \<Rightarrow> js_error + string"
  submitTransaction :: "'s Contract \<Rightarrow> json option \<Rightarrow> json list \<Rightarrow> js_error + string"

text \<open>\<open>e.details && e.details.length ? e.details : e.message\<close>, as \<open>res.send\<close> gets it.\<close>

definition details_or_message :: "js_error \<Rightarrow> res_body" where
  "details_or_message e =
     (case details e of
        NoDetails \<Rightarrow> Text (message e)
      | DetailsText d \<Rightarrow> (if d \<noteq> [] then Text d else Text (message e))
      | DetailsList ds \<Rightarrow> (if ds \<noteq> [] then Json ds else Text (message e)))"

subsection \<open>Startup (lines 106-134) and \<open>POST /init\<close>\<close>

definition tokenName :: string where
  "tokenName = ''CDC''"

definition tokenSymbol :: string where
  "tokenSymbol = ''$''"

text \<open>
  The \<open>try\<close> around \<open>contract.submitTransaction(Initialize, tokenName, tokenSymbol)\<close>,
  which stands twice in the program: it only logs.
\<close>

definition try_Initialize :: "'s ledger \<Rightarrow> 's Contract \<Rightarrow> log_entry list" where
  "try_Initialize lib contract =
     (case submitTransaction lib contract (Some (JStr ''Initialize''))
             [JStr tokenName, JStr tokenSymbol] of
        Inr initialized \<Rightarrow> [Info (''Initialized: '' @ initialized)]
      | Inl e \<Rightarrow> [Info ''Already initialized''])"

text \<open>
  The entry \<open>organizations.<mspID>.users.<hlfUser>\<close> of the network configuration, read
  with \<open>_.get\<close>: a path that is missing reads \<open>undefined\<close>.
\<close>

record admin_user =
  cert_pem :: "string option"
  key_pem :: "string option"

text \<open>
  The default contract (lines 106-119): \<open>Buffer.from(userCertificate)\<close> first, then
  \<open>newConnectOptions\<close>, whose \<open>crypto.createPrivateKey(undefined)\<close> throws.
\<close>

definition main_contract ::
  "('k, 's) crypto_lib \<Rightarrow> config \<Rightarrow> grpc_Client \<Rightarrow> admin_user \<Rightarrow> js_error + 's Contract" where
  "main_contract crypto cfg grpcConn adminUser =
     (case Buffer_from (cert_pem adminUser) of
        Inl e \<Rightarrow> Inl e
      | Inr cert \<Rightarrow>
          (case key_pem adminUser of
             None \<Rightarrow> Inl (TypeError ''The key argument must be of type string or an instance of ArrayBuffer, Buffer, TypedArray, DataView, KeyObject, or CryptoKey. Received undefined'')
           | Some userKey \<Rightarrow>
               (case newConnectOptions crypto grpcConn (mspID cfg) cert userKey of
                  Inl e \<Rightarrow> Inl e
                | Inr connectOptions \<Rightarrow> Inr (getContract cfg connectOptions))))"

text \<open>
  What \<open>main\<close> has built when it starts to listen: the default contract, the empty
  \<open>users\<close> and the lines logged so far. \<open>main\<close> is taken up at line 106: the
  configuration, the registrar's enrolment and the gRPC connection are its arguments.
  \<open>Inl\<close> is a throw, which ends the process before it listens.
\<close>

record 's server =
  default_contract :: "'s Contract"
  users :: users_object
  startup_log :: "log_entry list"

definition main ::
  "('k, 's) crypto_lib \<Rightarrow> 's ledger \<Rightarrow> config \<Rightarrow> grpc_Client \<Rightarrow> admin_user
     \<Rightarrow> js_error + 's server" where
  "main crypto lib cfg grpcConn adminUser =
     (case main_contract crypto cfg grpcConn adminUser of
        Inl e \<Rightarrow> Inl e
      | Inr contract \<Rightarrow>
          Inr \<lparr>default_contract = contract, users = users_init,
               startup_log = try_Initialize lib contract\<rparr>)"

text \<open>\<open>/init\<close> (lines 135-143) runs the same \<open>try\<close> on the default contract.\<close>

definition post_init :: "'s ledger \<Rightarrow> 's Contract \<Rightarrow> users_object \<Rightarrow> handler_result" where
  "post_init lib contract us =
     \<lparr>users_after = us, ca_calls = [], logged = try_Initialize lib contract,
      ended = Responded \<lparr>status = 200, body = Text ''Initialized''\<rparr>\<rparr>"

subsection \<open>The transaction proxy: \<open>/ping\<close>, \<open>/evaluate\<close>, \<open>/submit\<close>\<close>

definition send_ok :: "users_object \<Rightarrow> string \<Rightarrow> handler_result" where
  "send_ok us responseString =
     \<lparr>users_after = us, ca_calls = [], logged = [],
      ended = Responded \<lparr>status = 200, body = Text responseString\<rparr>\<rparr>"

definition send_400 :: "users_object \<Rightarrow> res_body \<Rightarrow> handler_result" where
  "send_400 us b =
     \<lparr>users_after = us, ca_calls = [], logged = [],
      ended = Responded \<lparr>status = 400, body = b\<rparr>\<rparr>"

definition get_ping :: "'s ledger \<Rightarrow> 's Contract \<Rightarrow> users_object \<Rightarrow> handler_result" where
  "get_ping lib req_contract us =
     (case evaluateTransaction lib req_contract (Some (JStr ''Ping'')) [] of
        Inr responseBuffer \<Rightarrow> send_ok us responseBuffer
      | Inl e \<Rightarrow> send_400 us (Text (message e)))"

text \<open>
  \<open>/evaluate\<close> (lines 221-231): the spread is inside the \<open>try\<close>, so its \<open>TypeError\<close> is
  answered like an error of the transaction.
\<close>

definition post_evaluate ::
  "'s ledger \<Rightarrow> 's Contract \<Rightarrow> users_object \<Rightarrow> tx_body \<Rightarrow> handler_result" where
  "post_evaluate lib req_contract us b =
     (case spread (args_or_empty (args b)) of
        Inl e \<Rightarrow> send_400 us (details_or_message e)
      | Inr as \<Rightarrow>
          (case evaluateTransaction lib req_contract (fcn b) as of
             Inr responseBuffer \<Rightarrow> send_ok us responseBuffer
           | Inl e \<Rightarrow> send_400 us (details_or_message e)))"

text \<open>\<open>/submit\<close> (lines 233-243).\<close>

definition post_submit ::
  "'s ledger \<Rightarrow> 's Contract \<Rightarrow> users_object \<Rightarrow> tx_body \<Rightarrow> handler_result" where
  "post_submit lib req_contract us b =
     (case spread (args_or_empty (args b)) of
        Inl e \<Rightarrow> send_400 us (details_or_message e)
      | Inr as \<Rightarrow>
          (case submitTransaction lib req_contract (fcn b) as of
             Inr responseBuffer \<Rightarrow> send_ok us responseBuffer
           | Inl e \<Rightarrow> send_400 us (details_or_message e)))"

subsection \<open>The application\<close>

text \<open>
  The routes in the order \<open>main\<close> registers them: \<open>/init\<close>, \<open>/signup\<close> and \<open>/login\<close> stand
  before the session resolver and answer without it; \<open>/ping\<close>, \<open>/evaluate\<close> and \<open>/submit\<close>
  stand after it and use the contract it attached.
\<close>

datatype route =
    PostInit
  | PostSignup credentials_body
  | PostLogin credentials_body
  | GetPing
  | PostEvaluate tx_body
  | PostSubmit tx_body

text \<open>
  \<open>x_user\<close> is \<open>req.headers["x-user"]\<close>: the field value of the header as HTTP defines it
  and the middleware reads it (whitespace around a field value is not part of it), and
  \<open>None\<close> when the request has no such header.
\<close>

record request =
  route :: route
  x_user :: "string option"

text \<open>What the handlers close over.\<close>

record ('i, 'u, 'k, 's) closure =
  env_ca :: "('i, 'u) ca_services"
  env_registrar :: 'u
  env_crypto :: "('k, 's) crypto_lib"
  env_ledger :: "'s ledger"
  env_config :: config
  env_grpcConn :: grpc_Client
  env_contract :: "'s Contract"

definition resolve :: "('i, 'u, 'k, 's) closure \<Rightarrow> users_object \<Rightarrow> request \<Rightarrow> 's resolved" where
  "resolve env us req =
     session_resolver (env_crypto env) (env_config env) (env_grpcConn env) (env_contract env)
       us (x_user req)"

definition after_resolver ::
  "('i, 'u, 'k, 's) closure \<Rightarrow> users_object \<Rightarrow> request
     \<Rightarrow> ('s Contract \<Rightarrow> handler_result) \<Rightarrow> handler_result" where
  "after_resolver env us req handler =
     (case resolve env us req of
        Next req_contract \<Rightarrow> handler req_contract
      | NextErr e \<Rightarrow>
          \<lparr>users_after = us, ca_calls = [], logged = [ErrorLog e], ended = NextError e\<rparr>)"

definition app :: "('i, 'u, 'k, 's) closure \<Rightarrow> users_object \<Rightarrow> request \<Rightarrow> handler_result" where
  "app env us req =
     (case route req of
        PostInit \<Rightarrow> post_init (env_ledger env) (env_contract env) us
      | PostSignup b \<Rightarrow> post_signup (env_ca env) (env_registrar env) us b
      | PostLogin b \<Rightarrow> post_login (env_ca env) (env_registrar env) us b
      | GetPing \<Rightarrow> after_resolver env us req (\<lambda>c. get_ping (env_ledger env) c us)
      | PostEvaluate b \<Rightarrow>
          after_resolver env us req (\<lambda>c. post_evaluate (env_ledger env) c us b)
      | PostSubmit b \<Rightarrow>
          after_resolver env us req (\<lambda>c. post_submit (env_ledger env) c us b))"

text \<open>
  The object \<open>users\<close> after a sequence of requests, each served with the answers the
  libraries gave at that time.
\<close>

fun serve :: "users_object \<Rightarrow> (('i, 'u, 'k, 's) closure \<times> request) list \<Rightarrow> users_object" where
  "serve us [] = us"
| "serve us ((env, req) # rest) = serve (users_after (app env us req)) rest"

text \<open>
  The enrolment a request stores under the name \<open>u\<close>: it is a \<open>/login\<close> as \<open>u\<close> for which
  the lookup resolved and \<open>enroll\<close> returned.
\<close>

fun enrolled_by :: "string \<Rightarrow> ('i, 'u, 'k, 's) closure \<times> request \<Rightarrow> IEnrollResponse option" where
  "enrolled_by u (env, req) =
     (case route req of
        PostLogin b \<Rightarrow>
          (if username b = u then
             (case getOne (env_ca env) (username b) (env_registrar env) of
                Inl e \<Rightarrow> None
              | Inr found \<Rightarrow>
                  (case enroll (env_ca env)
                          \<lparr>enrollmentID = username b, enrollmentSecret = password b\<rparr> of
                     Inl e \<Rightarrow> None
                   | Inr r \<Rightarrow> Some r))
           else None)
      | _ \<Rightarrow> None)"

text \<open>
  The enrolment of \<open>u\<close> after a sequence of requests (the first request is the head of
  the list): that of the last \<open>/login\<close> as \<open>u\<close> that succeeded.
\<close>

fun last_enrolment ::
  "string \<Rightarrow> (('i, 'u, 'k, 's) closure \<times> request) list \<Rightarrow> IEnrollResponse option" where
  "last_enrolment u [] = None"
| "last_enrolment u (ev # evs) =
     (case last_enrolment u evs of
        Some r \<Rightarrow> Some r
      | None \<Rightarrow> enrolled_by u ev)"

text \<open>
  Some \<open>/login\<close> of the sequence had the username \<open>u\<close> and was given the enrolment \<open>r\<close> by
  the authority.
\<close>

definition issued ::
  "(('i, 'u, 'k, 's) closure \<times> request) list \<Rightarrow> string \<Rightarrow> IEnrollResponse \<Rightarrow> bool" where
  "issued evs u r =
     list_ex (\<lambda>(env, req).
        case route req of
          PostLogin b \<Rightarrow>
            username b = u \<and>
            enroll (env_ca env) \<lparr>enrollmentID = username b, enrollmentSecret = password b\<rparr> = Inr r
        | _ \<Rightarrow> False) evs"

text \<open>Every enrolment held by \<open>users\<close> was issued to the name it is held under.\<close>

definition all_issued ::
  "(('i, 'u, 'k, 's) closure \<times> request) list \<Rightarrow> users_object \<Rightarrow> bool" where
  "all_issued evs us =
     (list_all (\<lambda>(k, r). issued evs k r) (own us) \<and>
      (case proto us of None \<Rightarrow> True | Some r \<Rightarrow> issued evs ''__proto__'' r))"

subsection \<open>Sample services, for the concrete instances\<close>

text \<open>
  A certificate authority, a ledger and a crypto library with fixed answers, and a
  small configuration: the inputs at which the theorems below are instantiated.
\<close>

definition sample_ca ::
  "js_error + unit \<Rightarrow> js_error + string \<Rightarrow> js_error + IEnrollResponse \<Rightarrow> (unit, unit) ca_services" where
  "sample_ca found registered enrolled =
     \<lparr>getOne = (\<lambda>enrollmentID registrar. found),
      register = (\<lambda>req registrar. registered),
      enroll = (\<lambda>req. enrolled)\<rparr>"

definition sample_enrollment :: "string \<Rightarrow> IEnrollResponse" where
  "sample_enrollment n =
     \<lparr>key = ICryptoKey (n @ ''-KEY''), certificate = n @ ''-CERT'', rootCertificate = ''ROOT''\<rparr>"

definition sample_error :: "string \<Rightarrow> js_error" where
  "sample_error m = \<lparr>message = m, details = NoDetails\<rparr>"

text \<open>The same authority behind the library's check of the enrolment id.\<close>

definition checking_ca ::
  "js_error + unit \<Rightarrow> js_error + string \<Rightarrow> js_error + IEnrollResponse \<Rightarrow> (unit, unit) ca_services" where
  "checking_ca found registered enrolled =
     \<lparr>getOne = (\<lambda>enrollmentID registrar.
                  if enrollmentID = [] then Inl (sample_error ''Missing required argument enrollmentID'')
                  else found),
      register = (\<lambda>req registrar. registered),
      enroll = (\<lambda>req. enrolled)\<rparr>"

definition sample_crypto :: "(string, string) crypto_lib" where
  "sample_crypto = \<lparr>createPrivateKey = (\<lambda>pem. Inr pem), newPrivateKeySigner = (\<lambda>k. Inr k)\<rparr>"

definition sample_config :: config where
  "sample_config = \<lparr>mspID = ''Org1MSP'', channelName = ''demo'', chaincodeName = ''products''\<rparr>"

definition sample_conn :: grpc_Client where
  "sample_conn = \<lparr>peerEndpoint = ''peer0:7051'', tlsRootCert = ''TLS''\<rparr>"

definition sample_admin :: admin_user where
  "sample_admin = \<lparr>cert_pem = Some ''ADMIN-CERT'', key_pem = Some ''ADMIN-KEY''\<rparr>"

definition sample_ledger :: "js_error + string \<Rightarrow> string ledger" where
  "sample_ledger answer =
     \<lparr>evaluateTransaction = (\<lambda>c name as. answer), submitTransaction = (\<lambda>c name as. answer)\<rparr>"

definition sample_contract :: "string \<Rightarrow> string \<Rightarrow> string Contract" where
  "sample_contract cert pem =
     getContract sample_config
       \<lparr>client = sample_conn, identity = newIdentity ''Org1MSP'' cert, signer = pem,
        evaluateOptions = (\<lambda>now. \<lparr>deadline = now + 5000\<rparr>),
        endorseOptions = (\<lambda>now. \<lparr>deadline = now + 15000\<rparr>),
        submitOptions = (\<lambda>now. \<lparr>deadline = now + 5000\<rparr>),
        commitStatusOptions = (\<lambda>now. \<lparr>deadline = now + 60000\<rparr>)\<rparr>"

definition sample_closure ::
  "(unit, unit) ca_services \<Rightarrow> string ledger \<Rightarrow> (unit, unit, string, string) closure" where
  "sample_closure c l =
     \<lparr>env_ca = c, env_registrar = (), env_crypto = sample_crypto, env_ledger = l,
      env_config = sample_config, env_grpcConn = sample_conn,
      env_contract = sample_contract ''ADMIN-CERT'' ''ADMIN-KEY''\<rparr>"

section \<open>Properties\<close>

subsection \<open>Reading and writing \<open>users\<close>\<close>

lemma js_get_js_set_same: "js_get (js_set u k r) k = EnrollObj r"
proof (cases "map_of (own u) k")
  case None
  then have "k \<notin> fst ` set (own u)" by (simp add: map_of_eq_None_iff)
  then show ?thesis using None by (auto simp: js_get_def js_set_def update_conv')
next
  case (Some e)
  then have "k \<in> fst ` set (own u)" by (metis map_of_eq_None_iff option.distinct(1))
  then show ?thesis by (simp add: js_get_def js_set_def update_conv')
qed

lemma js_get_EnrollObjD:
  "js_get u k = EnrollObj r \<Longrightarrow>
     map_of (own u) k = Some r \<or> (map_of (own u) k = None \<and> k = ''__proto__'' \<and> proto u = Some r)"
  by (auto simp: js_get_def object_prototype_get_def split: option.splits if_splits)

lemma js_get_js_set_kept:
  assumes "js_get u k = EnrollObj r" and "k' \<noteq> k"
  shows "js_get (js_set u k' r') k = EnrollObj r"
  using js_get_EnrollObjD [OF assms(1)] assms(2)
  by (auto simp: js_get_def js_set_def update_conv')

lemma distinct_js_set:
  "distinct (map fst (own u)) \<Longrightarrow> distinct (map fst (own (js_set u k r)))"
  by (simp add: js_set_def distinct_update)

text \<open>The sample configuration yields the sample default contract.\<close>

lemma main_contract_sample:
  "main_contract sample_crypto sample_config sample_conn sample_admin = Inr (sample_contract ''ADMIN-CERT'' ''ADMIN-KEY'')"
  by (simp add: main_contract_def sample_crypto_def sample_config_def sample_admin_def Buffer_from_def
     newConnectOptions_def newSigner_def sample_contract_def)

subsection \<open>What a request does to \<open>users\<close>\<close>

text \<open>
  Only a \<open>/login\<close> that the authority answers with an enrolment writes \<open>users\<close>, and it
  writes that enrolment under the username of the request.
\<close>

lemma users_after_post_login:
  "users_after (post_login ca reg us b) = us \<or>
   (\<exists>r. enroll ca \<lparr>enrollmentID = username b, enrollmentSecret = password b\<rparr> = Inr r \<and>
        users_after (post_login ca reg us b) = js_set us (username b) r)"
  by (simp add: post_login_def Let_def split: sum.splits)

lemma users_after_app:
  "users_after (app env us req) = us \<or>
   (\<exists>b r. route req = PostLogin b \<and>
        enroll (env_ca env) \<lparr>enrollmentID = username b, enrollmentSecret = password b\<rparr> = Inr r \<and>
        users_after (app env us req) = js_set us (username b) r)"
proof (cases "route req")
  case (PostLogin b)
  then show ?thesis
    using users_after_post_login [of "env_ca env" "env_registrar env" us b]
    by (auto simp: app_def)
qed (auto simp: app_def post_init_def post_signup_def Let_def after_resolver_def get_ping_def
      post_evaluate_def post_submit_def send_ok_def send_400_def split: sum.splits resolved.splits)

text \<open>
  A successful \<open>/login\<close> as \<open>u\<close> stores its enrolment under \<open>u\<close>; every other request
  leaves the entry of \<open>u\<close> as it is; so after a sequence of requests \<open>users[u]\<close> reads the
  enrolment of the last successful \<open>/login\<close> as \<open>u\<close>.
\<close>

lemma users_after_enrolled:
  "enrolled_by u (env, req) = Some r \<Longrightarrow> users_after (app env us req) = js_set us u r"
  by (auto simp: app_def post_login_def Let_def split: route.splits sum.splits if_splits)

lemma users_after_not_enrolled:
  assumes "enrolled_by u (env, req) = None" and "js_get us u = EnrollObj r"
  shows "js_get (users_after (app env us req)) u = EnrollObj r"
proof (cases "route req")
  case (PostLogin b)
  show ?thesis
  proof (cases "username b = u")
    case True
    with assms PostLogin show ?thesis
      by (auto simp: app_def post_login_def Let_def split: sum.splits)
  next
    case False
    with assms(2) PostLogin show ?thesis
      by (auto simp: app_def post_login_def Let_def js_get_js_set_kept split: sum.splits)
  qed
qed (use assms(2) in \<open>auto simp: app_def post_init_def post_signup_def Let_def after_resolver_def
      get_ping_def post_evaluate_def post_submit_def send_ok_def send_400_def
      split: sum.splits resolved.splits\<close>)

lemma serve_keeps_enrolment:
  "last_enrolment u evs = None \<Longrightarrow> js_get us u = EnrollObj r \<Longrightarrow>
   js_get (serve us evs) u = EnrollObj r"
proof (induction evs arbitrary: us)
  case Nil
  then show ?case by simp
next
  case (Cons ev evs)
  obtain env req where ev: "ev = (env, req)" by (cases ev)
  from Cons.prems(1) have rest: "last_enrolment u evs = None" and this_one: "enrolled_by u ev = None"
    by (auto split: option.splits)
  have "js_get (users_after (app env us req)) u = EnrollObj r"
    using users_after_not_enrolled [of u env req us r] this_one ev Cons.prems(2) by simp
  from Cons.IH [OF rest this] show ?case using ev by simp
qed

lemma serve_last_enrolment:
  "last_enrolment u evs = Some r \<Longrightarrow> js_get (serve us evs) u = EnrollObj r"
proof (induction evs arbitrary: us)
  case Nil
  then show ?case by simp
next
  case (Cons ev evs)
  obtain env req where ev: "ev = (env, req)" by (cases ev)
  show ?case
  proof (cases "last_enrolment u evs")
    case (Some r')
    with Cons.prems have "r' = r" by simp
    with Some Cons.IH [of "users_after (app env us req)"] ev show ?thesis by simp
  next
    case None
    with Cons.prems ev have en: "enrolled_by u (env, req) = Some r" by simp
    have "js_get (users_after (app env us req)) u = EnrollObj r"
      by (simp add: users_after_enrolled [OF en] js_get_js_set_same)
    from serve_keeps_enrolment [OF None this] show ?thesis using ev by simp
  qed
qed

lemma login_ok_enrolled:
  assumes "ended (app env us \<lparr>route = PostLogin b, x_user = h\<rparr>) =
             Responded \<lparr>status = 200, body = Text ''OK''\<rparr>"
  shows "\<exists>r. enrolled_by (username b) (env, \<lparr>route = PostLogin b, x_user = h\<rparr>) = Some r"
  using assms by (auto simp: app_def post_login_def Let_def split: sum.splits)

lemma login_ok_nonempty:
  assumes "ended (app env us \<lparr>route = PostLogin b, x_user = h\<rparr>) =
             Responded \<lparr>status = 200, body = Text ''OK''\<rparr>"
    and "rejects_empty_id (env_ca env) (env_registrar env)"
  shows "username b \<noteq> []"
  using assms by (auto simp: app_def post_login_def rejects_empty_id_def Let_def split: sum.splits)

lemma last_enrolment_after_login:
  assumes "enrolled_by u ev = Some r0"
  shows "\<exists>r. last_enrolment u (ev # evs) = Some r"
  using assms by (cases "last_enrolment u evs") auto


subsection \<open>What the session builder and the resolver return\<close>


lemma session_resolver_stored:
  assumes "js_get us u = EnrollObj r" and "u \<noteq> []"
  shows "session_resolver crypto cfg conn dflt us (Some u) =
     (case newConnectOptions crypto conn (mspID cfg) (certificate r) (toBytes (key r)) of
        Inl e \<Rightarrow> NextErr e
      | Inr opts \<Rightarrow> Next (getContract cfg opts))"
  using assms by (simp add: session_resolver_def Buffer_from_def)

subsection \<open>Invariants of \<open>users\<close> over request sequences\<close>

text \<open>The names of the own properties stay distinct.\<close>

lemma distinct_serve:
  "distinct (map fst (own us)) \<Longrightarrow> distinct (map fst (own (serve us evs)))"
proof (induction evs arbitrary: us)
  case Nil
  then show ?case by simp
next
  case (Cons ev evs)
  obtain env req where ev: "ev = (env, req)" by (cases ev)
  have "distinct (map fst (own (users_after (app env us req))))"
    using users_after_app [of env us req] Cons.prems by (auto simp: distinct_js_set)
  then show ?case using Cons.IH ev by simp
qed

lemma at_most_one_entry:
  "distinct (map fst xs) \<Longrightarrow> length (filter (\<lambda>kv. fst kv = k) xs) \<le> 1"
proof (induction xs)
  case Nil
  then show ?case by simp
next
  case (Cons x xs)
  show ?case
  proof (cases "fst x = k")
    case True
    with Cons.prems have "\<forall>kv \<in> set xs. fst kv \<noteq> k" by (auto simp: image_iff)
    then have "filter (\<lambda>kv. fst kv = k) xs = []" by (simp add: filter_empty_conv)
    with True show ?thesis by simp
  next
    case False
    with Cons show ?thesis by simp
  qed
qed

text \<open>Every enrolment in \<open>users\<close> was issued at a \<open>/login\<close> under the name that holds it.\<close>

lemma issued_append: "issued (evs @ evs') u r = (issued evs u r \<or> issued evs' u r)"
  by (simp add: issued_def)

lemma issued_step:
  assumes "route req = PostLogin b"
    and "enroll (env_ca env) \<lparr>enrollmentID = username b, enrollmentSecret = password b\<rparr> = Inr r"
  shows "issued [(env, req)] (username b) r"
  using assms by (simp add: issued_def)

lemma set_update_subset: "set (AList.update k v al) \<subseteq> insert (k, v) (set al)"
  by (induction al) auto

lemma all_issued_js_set:
  assumes "all_issued evs us" and "issued evs' k r"
  shows "all_issued (evs @ evs') (js_set us k r)"
proof -
  have sub: "set (AList.update k r (own us)) \<subseteq> insert (k, r) (set (own us))"
    by (rule set_update_subset)
  have old: "\<And>k' r'. (k', r') \<in> set (own us) \<Longrightarrow> issued (evs @ evs') k' r'"
    using assms(1) by (auto simp: all_issued_def list_all_iff issued_append)
  have new: "issued (evs @ evs') k r"
    using assms(2) by (simp add: issued_append)
  have own_ok: "list_all (\<lambda>(k, r). issued (evs @ evs') k r) (AList.update k r (own us))"
    using sub old new by (auto simp: list_all_iff)
  have own_old: "list_all (\<lambda>(k, r). issued (evs @ evs') k r) (own us)"
    using old by (auto simp: list_all_iff)
  have proto_old: "case proto us of None \<Rightarrow> True | Some r \<Rightarrow> issued (evs @ evs') ''__proto__'' r"
    using assms(1) by (auto simp: all_issued_def issued_append split: option.splits)
  show ?thesis
    using own_ok own_old proto_old new
    by (auto simp: all_issued_def js_set_def)
qed

lemma all_issued_mono:
  "all_issued evs us \<Longrightarrow> all_issued (evs @ evs') us"
  by (auto simp: all_issued_def list_all_iff issued_append split: option.splits)

lemma all_issued_serve:
  "all_issued evs0 us \<Longrightarrow> all_issued (evs0 @ evs) (serve us evs)"
proof (induction evs arbitrary: us evs0)
  case Nil
  then show ?case by simp
next
  case (Cons ev evs)
  obtain env req where ev: "ev = (env, req)" by (cases ev)
  have "all_issued (evs0 @ [ev]) (users_after (app env us req))"
    using users_after_app [of env us req]
  proof
    assume "users_after (app env us req) = us"
    then show ?thesis using Cons.prems by (simp add: all_issued_mono)
  next
    assume "\<exists>b r. route req = PostLogin b \<and>
        enroll (env_ca env) \<lparr>enrollmentID = username b, enrollmentSecret = password b\<rparr> = Inr r \<and>
        users_after (app env us req) = js_set us (username b) r"
    then obtain b r where rt: "route req = PostLogin b"
      and en: "enroll (env_ca env) \<lparr>enrollmentID = username b, enrollmentSecret = password b\<rparr> = Inr r"
      and ua: "users_after (app env us req) = js_set us (username b) r"
      by blast
    show ?thesis
      using all_issued_js_set [OF Cons.prems issued_step [OF rt en]] ua ev by simp
  qed
  from Cons.IH [OF this] show ?case using ev by simp
qed

lemma all_issued_reachable: "all_issued evs (serve users_init evs)"
  using all_issued_serve [of "[]" users_init evs]
  by (simp add: all_issued_def users_init_def)

lemma all_issued_get:
  assumes "all_issued evs us" and "js_get us u = EnrollObj r"
  shows "issued evs u r"
  using js_get_EnrollObjD [OF assms(2)] assms(1)
  by (auto simp: all_issued_def list_all_iff dest: map_of_SomeD)

subsection \<open>The resolver's two results\<close>

text \<open>
  The default contract is attached when the header is absent or empty, or when
  \<open>users[user]\<close> reads \<open>undefined\<close>: the name is no own property of \<open>users\<close> and is not
  inherited.
\<close>

lemma session_resolver_fallback:
  "x = None \<or> x = Some [] \<or> (\<exists>u. x = Some u \<and> js_get us u = Undefined) \<Longrightarrow>
   session_resolver crypto cfg conn dflt us x = Next dflt"
  by (auto simp: session_resolver_def)

lemma js_get_unknown:
  "map_of (own us) u = None \<Longrightarrow> proto us = None \<Longrightarrow> u \<noteq> ''__proto__'' \<Longrightarrow>
   u \<notin> set object_prototype_names \<Longrightarrow> js_get us u = Undefined"
  by (simp add: js_get_def object_prototype_get_def)

text \<open>A contract that is attached is the default one or is built from one enrolment.\<close>

lemma session_resolver_Next:
  assumes "session_resolver crypto cfg conn dflt us x = Next c"
  shows "c = dflt \<or>
     (\<exists>u r opts. x = Some u \<and> js_get us u = EnrollObj r \<and>
        newConnectOptions crypto conn (mspID cfg) (certificate r) (toBytes (key r)) = Inr opts \<and>
        c = getContract cfg opts)"
proof (cases x)
  case None
  with assms show ?thesis by (simp add: session_resolver_def)
next
  case (Some u)
  show ?thesis
  proof (cases "js_get us u")
    case (EnrollObj r)
    with assms Some show ?thesis
      by (auto simp: session_resolver_def Buffer_from_def split: if_splits sum.splits)
  qed (use assms Some in \<open>auto simp: session_resolver_def Buffer_from_def split: if_splits\<close>)
qed

lemma newConnectOptions_InrD:
  "newConnectOptions crypto c m creds pem = Inr opts \<Longrightarrow>
     newSigner crypto pem = Inr (signer opts) \<and> credentials (identity opts) = creds \<and>
     mspId (identity opts) = m \<and> client opts = c"
  by (auto simp: newConnectOptions_def newIdentity_def split: sum.splits)

subsection \<open>Signup and login\<close>

text \<open>
  Claim C3. \<open>POST /signup\<close>: when the registrar's lookup \<open>getOne\<close> resolves (the identity
  exists), the handler answers 400 "Username already taken" and makes no other call;
  when the lookup throws, the handler calls \<open>register\<close> with the username and the
  password (role client, no affiliation, no attributes, unlimited enrolments), and
  answers 200 "OK" when that call returns. The object \<open>users\<close> is neither read nor
  written: the answer and the calls are the same for every \<open>users\<close>.
\<close>

theorem signup_taken_or_registered:
  "(getOne ca (username b) registrar = Inr found \<longrightarrow>
      ended (post_signup ca registrar us b) =
        Responded \<lparr>status = 400, body = Text ''Username already taken''\<rparr>
      \<and> ca_calls (post_signup ca registrar us b) = [GetOne (username b)])
   \<and> (getOne ca (username b) registrar = Inl e \<longrightarrow>
        ca_calls (post_signup ca registrar us b) =
          [GetOne (username b),
           Register \<lparr>reg_enrollmentID = username b, reg_enrollmentSecret = password b,
                     affiliation = [], role = ''client'', attrs = [], maxEnrollments = - 1\<rparr>]
        \<and> (register ca \<lparr>reg_enrollmentID = username b, reg_enrollmentSecret = password b,
                     affiliation = [], role = ''client'', attrs = [], maxEnrollments = - 1\<rparr>
              registrar = Inr secret \<longrightarrow>
            ended (post_signup ca registrar us b) = Responded \<lparr>status = 200, body = Text ''OK''\<rparr>))
   \<and> ended (post_signup ca registrar us b) = ended (post_signup ca registrar us' b)
   \<and> ca_calls (post_signup ca registrar us b) = ca_calls (post_signup ca registrar us' b)
   \<and> users_after (post_signup ca registrar us b) = us"
  by (simp add: post_signup_def Let_def split: sum.splits)

text \<open>
  The two cases on a sample authority: one that knows alice, one that does not and
  registers her.
\<close>

theorem signup_taken_or_registered_witness:
  "ended (post_signup (sample_ca (Inr ()) (Inr ''pw'') (Inr (sample_enrollment ''alice''))) ()
            users_init \<lparr>username = ''alice'', password = ''pw''\<rparr>) =
     Responded \<lparr>status = 400, body = Text ''Username already taken''\<rparr>
   \<and> ended (post_signup (sample_ca (Inl (sample_error ''no such identity'')) (Inr ''pw'')
            (Inr (sample_enrollment ''alice''))) () users_init
            \<lparr>username = ''alice'', password = ''pw''\<rparr>) =
     Responded \<lparr>status = 200, body = Text ''OK''\<rparr>"
  using signup_taken_or_registered [of "sample_ca (Inr ()) (Inr ''pw'') (Inr (sample_enrollment ''alice''))"
            "\<lparr>username = ''alice'', password = ''pw''\<rparr>" "()" "()" users_init
            "sample_error ''x''" "''pw''" users_init]
        signup_taken_or_registered [of "sample_ca (Inl (sample_error ''no such identity'')) (Inr ''pw'')
            (Inr (sample_enrollment ''alice''))"
            "\<lparr>username = ''alice'', password = ''pw''\<rparr>" "()" "()" users_init
            "sample_error ''no such identity''" "''pw''" users_init]
  by (simp add: sample_ca_def)

text \<open>
  Claim C4. \<open>POST /login\<close>: when the registrar's lookup throws (the identity is unknown),
  the handler answers 400 "Username not found", \<open>enroll\<close> is not called and \<open>users\<close> is
  unchanged.
\<close>

theorem login_unknown_user:
  assumes "getOne ca (username b) registrar = Inl e"
  shows "ended (post_login ca registrar us b) =
           Responded \<lparr>status = 400, body = Text ''Username not found''\<rparr>
       \<and> users_after (post_login ca registrar us b) = us
       \<and> ca_calls (post_login ca registrar us b) = [GetOne (username b)]"
  using assms by (simp add: post_login_def)

theorem login_unknown_user_witness:
  "ended (post_login (sample_ca (Inl (sample_error ''no such identity'')) (Inr ''pw'')
            (Inr (sample_enrollment ''alice''))) () users_init
            \<lparr>username = ''alice'', password = ''pw''\<rparr>) =
     Responded \<lparr>status = 400, body = Text ''Username not found''\<rparr>
   \<and> users_after (post_login (sample_ca (Inl (sample_error ''no such identity'')) (Inr ''pw'')
            (Inr (sample_enrollment ''alice''))) () users_init
            \<lparr>username = ''alice'', password = ''pw''\<rparr>) = users_init"
  using login_unknown_user [of "sample_ca (Inl (sample_error ''no such identity'')) (Inr ''pw'')
            (Inr (sample_enrollment ''alice''))" "\<lparr>username = ''alice'', password = ''pw''\<rparr>" "()"
            "sample_error ''no such identity''" users_init]
  by (simp add: sample_ca_def)

text \<open>
  Claim C5. \<open>POST /login\<close>: when the lookup resolves and \<open>enroll\<close> returns the enrolment
  \<open>r\<close>, the handler answers 200 "OK" and afterwards \<open>users[username]\<close> reads \<open>r\<close>, whatever
  \<open>users\<close> held under that name before. And after any sequence of requests on a fresh
  process the own properties of \<open>users\<close> have distinct names: no name has two entries.
\<close>

theorem login_stores_credential:
  assumes "getOne ca (username b) registrar = Inr found"
    and "enroll ca \<lparr>enrollmentID = username b, enrollmentSecret = password b\<rparr> = Inr r"
  shows "ended (post_login ca registrar us b) = Responded \<lparr>status = 200, body = Text ''OK''\<rparr>
       \<and> js_get (users_after (post_login ca registrar us b)) (username b) = EnrollObj r
       \<and> distinct (map fst (own (serve users_init evs)))
       \<and> length (filter (\<lambda>kv. fst kv = k) (own (serve users_init evs))) \<le> 1"
proof -
  have d: "distinct (map fst (own (serve users_init evs)))"
    by (rule distinct_serve) (simp add: users_init_def)
  have c: "length (filter (\<lambda>kv. fst kv = k) (own (serve users_init evs))) \<le> 1"
    using d by (rule at_most_one_entry)
  show ?thesis using assms d c
    by (simp add: post_login_def Let_def js_get_js_set_same)
qed

text \<open>An instance where alice's older enrolment is overwritten.\<close>

theorem login_stores_credential_witness:
  "ended (post_login (sample_ca (Inr ()) (Inr ''pw'') (Inr (sample_enrollment ''alice''))) ()
            (js_set users_init ''alice'' (sample_enrollment ''old''))
            \<lparr>username = ''alice'', password = ''pw''\<rparr>) =
     Responded \<lparr>status = 200, body = Text ''OK''\<rparr>
   \<and> js_get (users_after (post_login (sample_ca (Inr ()) (Inr ''pw'')
                  (Inr (sample_enrollment ''alice''))) ()
            (js_set users_init ''alice'' (sample_enrollment ''old''))
            \<lparr>username = ''alice'', password = ''pw''\<rparr>)) ''alice''
       = EnrollObj (sample_enrollment ''alice'')"
proof -
  let ?ca = "sample_ca (Inr ()) (Inr ''pw'') (Inr (sample_enrollment ''alice''))"
  let ?b = "\<lparr>username = ''alice'', password = ''pw''\<rparr>"
  have found: "getOne ?ca (username ?b) () = Inr ()" by (simp add: sample_ca_def)
  have en: "enroll ?ca \<lparr>enrollmentID = username ?b, enrollmentSecret = password ?b\<rparr> =
      Inr (sample_enrollment ''alice'')"
    by (simp add: sample_ca_def)
  from login_stores_credential [OF found en,
      of "js_set users_init ''alice'' (sample_enrollment ''old'')"
         "[] :: ((unit, unit, string, string) closure \<times> request) list"]
  show ?thesis by simp
qed

text \<open>
  Claim C8, at requests the claim covers and the code fails on. \<open>enroll\<close> in \<open>/login\<close> and
  \<open>register\<close> in \<open>/signup\<close> stand outside every \<open>try\<close>: when the authority knows alice
  and rejects her password, \<open>/login\<close> sends nothing and its promise is rejected with the
  authority's error; when the lookup finds no alice and \<open>register\<close> fails, \<open>/signup\<close>
  ends the same way. Neither answers 400.
\<close>

theorem ca_errors_escape_handlers:
  "ended (post_login (sample_ca (Inr ()) (Inr ''pw'') (Inl (sample_error ''Authentication failure'')))
            () users_init \<lparr>username = ''alice'', password = ''wrong''\<rparr>) =
     Rejected (sample_error ''Authentication failure'')
   \<and> ended (post_signup (sample_ca (Inl (sample_error ''no such identity''))
                 (Inl (sample_error ''Registration failed'')) (Inr (sample_enrollment ''alice'')))
            () users_init \<lparr>username = ''alice'', password = ''pw''\<rparr>) =
     Rejected (sample_error ''Registration failed'')"
  by (simp add: post_login_def post_signup_def sample_ca_def)

subsection \<open>The session resolver\<close>

text \<open>
  Claim C2, at a request the claim covers and the code fails on. On the \<open>users\<close> of a
  fresh process, where nobody has logged in, the header \<open>x-user: constructor\<close> names no
  stored user; but \<open>users["constructor"]\<close> reads the function inherited from
  \<open>Object.prototype\<close>, the guard \<open>user && users[user]\<close> passes, \<open>Buffer.from\<close> of its
  missing \<open>certificate\<close> throws, and the middleware calls \<open>next(e)\<close>: the default contract
  is not what the request gets, and \<open>GET /ping\<close> never reaches its handler. This holds
  for every crypto library, configuration and default contract.
\<close>

theorem resolver_prototype_name_fails:
  "map_of (own users_init) ''constructor'' = None \<and> proto users_init = None \<and>
   session_resolver crypto cfg grpcConn contract users_init (Some ''constructor'') =
     NextErr (TypeError ''The first argument must be of type string or an instance of Buffer, ArrayBuffer, or Array or an Array-like Object. Received undefined'') \<and>
   ended (app env users_init \<lparr>route = GetPing, x_user = Some ''constructor''\<rparr>) =
     NextError (TypeError ''The first argument must be of type string or an instance of Buffer, ArrayBuffer, or Array or an Array-like Object. Received undefined'')"
  by (simp add: session_resolver_def users_init_def js_get_def object_prototype_get_def
      object_prototype_names_def Buffer_from_def app_def after_resolver_def resolve_def)

text \<open>
  Claim C1. Let a \<open>/login\<close> as \<open>U\<close> have answered 200 "OK", served by a library that
  rejects the empty enrolment id, and let any requests follow. Let \<open>r\<close> be \<open>U\<close>'s
  enrolment then: the one the authority returned at the last successful \<open>/login\<close> as
  \<open>U\<close>. For a request whose header \<open>x-user\<close> has the value \<open>U\<close>, the middleware calls
  the session builder with \<open>r\<close>'s certificate and \<open>r\<close>'s private key and leaves what
  the builder returns. The contract it attaches has \<open>r\<close>'s certificate as the
  identity's credentials and the signer made from \<open>r\<close>'s private key, whatever the
  default contract is, and \<open>/evaluate\<close> runs on that contract. The builder returns
  whenever the signer factory does; its only error is the signer factory's.
\<close>

theorem resolver_after_login:
  assumes ok: "ended (app env us \<lparr>route = PostLogin b, x_user = h\<rparr>) =
                 Responded \<lparr>status = 200, body = Text ''OK''\<rparr>"
    and lib: "rejects_empty_id (env_ca env) (env_registrar env)"
    and later: "us' = serve (users_after (app env us \<lparr>route = PostLogin b, x_user = h\<rparr>)) evs"
    and hdr: "x_user req = Some (username b)"
  shows "\<exists>r. last_enrolment (username b) ((env, \<lparr>route = PostLogin b, x_user = h\<rparr>) # evs) = Some r
           \<and> js_get us' (username b) = EnrollObj r
           \<and> resolve env' us' req =
               (case newConnectOptions (env_crypto env') (env_grpcConn env')
                       (mspID (env_config env')) (certificate r) (toBytes (key r)) of
                  Inl e \<Rightarrow> NextErr e
                | Inr opts \<Rightarrow> Next (getContract (env_config env') opts))
           \<and> (\<forall>c. resolve env' us' req = Next c \<longrightarrow>
                  identity (gateway c) =
                    \<lparr>mspId = mspID (env_config env'), credentials = certificate r\<rparr>
                  \<and> newSigner (env_crypto env') (toBytes (key r)) = Inr (signer (gateway c))
                  \<and> (\<forall>tb. route req = PostEvaluate tb \<longrightarrow>
                        app env' us' req = post_evaluate (env_ledger env') c us' tb))
           \<and> (\<forall>s. newSigner (env_crypto env') (toBytes (key r)) = Inr s \<longrightarrow>
                  (\<exists>c. resolve env' us' req = Next c \<and> signer (gateway c) = s))"
proof -
  let ?login = "(env, \<lparr>route = PostLogin b, x_user = h\<rparr>)"
  let ?u = "username b"
  from login_ok_enrolled [OF ok] obtain r0 where "enrolled_by ?u ?login = Some r0" ..
  from last_enrolment_after_login [OF this] obtain r
    where last: "last_enrolment ?u (?login # evs) = Some r" ..
  have "serve us (?login # evs) = us'" using later by simp
  with serve_last_enrolment [OF last, of us] have stored: "js_get us' ?u = EnrollObj r" by simp
  have ne: "?u \<noteq> []" by (rule login_ok_nonempty [OF ok lib])
  have res: "resolve env' us' req =
      (case newConnectOptions (env_crypto env') (env_grpcConn env')
              (mspID (env_config env')) (certificate r) (toBytes (key r)) of
         Inl e \<Rightarrow> NextErr e
       | Inr opts \<Rightarrow> Next (getContract (env_config env') opts))"
    using session_resolver_stored [OF stored ne, of "env_crypto env'" "env_config env'"
        "env_grpcConn env'" "env_contract env'"] hdr
    by (simp add: resolve_def)
  have built: "\<forall>c. resolve env' us' req = Next c \<longrightarrow>
      identity (gateway c) = \<lparr>mspId = mspID (env_config env'), credentials = certificate r\<rparr>
      \<and> newSigner (env_crypto env') (toBytes (key r)) = Inr (signer (gateway c))
      \<and> (\<forall>tb. route req = PostEvaluate tb \<longrightarrow>
            app env' us' req = post_evaluate (env_ledger env') c us' tb)"
    unfolding res
    by (auto simp: newConnectOptions_def newIdentity_def getContract_def app_def after_resolver_def
        res split: sum.splits)
  have total: "\<forall>s. newSigner (env_crypto env') (toBytes (key r)) = Inr s \<longrightarrow>
      (\<exists>c. resolve env' us' req = Next c \<and> signer (gateway c) = s)"
    unfolding res by (auto simp: newConnectOptions_def getContract_def)
  from last stored res built total show ?thesis by blast
qed

text \<open>
  An instance: alice logs in, then bob logs in, then a second \<open>/login\<close> as alice fails
  on a wrong password; a request as alice still gets the contract of alice's
  certificate and key.
\<close>

theorem resolver_after_login_witness:
  "resolve (sample_closure (checking_ca (Inr ()) (Inr ''pw'') (Inr (sample_enrollment ''alice'')))
              (sample_ledger (Inr ''pong'')))
     (serve (users_after (app (sample_closure (checking_ca (Inr ()) (Inr ''pw'')
                                  (Inr (sample_enrollment ''alice''))) (sample_ledger (Inr ''pong'')))
                            users_init
                            \<lparr>route = PostLogin \<lparr>username = ''alice'', password = ''pw''\<rparr>,
                             x_user = None\<rparr>))
        [(sample_closure (checking_ca (Inr ()) (Inr ''pw'') (Inr (sample_enrollment ''bob'')))
            (sample_ledger (Inr ''pong'')),
          \<lparr>route = PostLogin \<lparr>username = ''bob'', password = ''pw''\<rparr>, x_user = None\<rparr>),
         (sample_closure (checking_ca (Inr ()) (Inr ''pw'')
                            (Inl (sample_error ''Authentication failure'')))
            (sample_ledger (Inr ''pong'')),
          \<lparr>route = PostLogin \<lparr>username = ''alice'', password = ''wrong''\<rparr>, x_user = None\<rparr>)])
     \<lparr>route = PostEvaluate \<lparr>fcn = Some (JStr ''Ping''), args = None\<rparr>, x_user = Some ''alice''\<rparr>
   = Next (sample_contract ''alice-CERT'' ''alice-KEY'')"
proof -
  let ?env = "sample_closure (checking_ca (Inr ()) (Inr ''pw'') (Inr (sample_enrollment ''alice'')))
                (sample_ledger (Inr ''pong''))"
  let ?b = "\<lparr>username = ''alice'', password = ''pw''\<rparr>"
  let ?login = "\<lparr>route = PostLogin ?b, x_user = None\<rparr>"
  let ?evs = "[(sample_closure (checking_ca (Inr ()) (Inr ''pw'') (Inr (sample_enrollment ''bob'')))
                  (sample_ledger (Inr ''pong'')),
                \<lparr>route = PostLogin \<lparr>username = ''bob'', password = ''pw''\<rparr>, x_user = None\<rparr>),
               (sample_closure (checking_ca (Inr ()) (Inr ''pw'')
                                  (Inl (sample_error ''Authentication failure'')))
                  (sample_ledger (Inr ''pong'')),
                \<lparr>route = PostLogin \<lparr>username = ''alice'', password = ''wrong''\<rparr>, x_user = None\<rparr>)]"
  let ?req = "\<lparr>route = PostEvaluate \<lparr>fcn = Some (JStr ''Ping''), args = None\<rparr>,
              x_user = Some ''alice''\<rparr>"
  have ok: "ended (app ?env users_init ?login) = Responded \<lparr>status = 200, body = Text ''OK''\<rparr>"
    by (simp add: app_def post_login_def sample_closure_def checking_ca_def)
  have lib: "rejects_empty_id (env_ca ?env) (env_registrar ?env)"
    by (simp add: rejects_empty_id_def sample_closure_def checking_ca_def)
  have hdr: "x_user ?req = Some (username ?b)" by simp
  have last: "last_enrolment (username ?b) ((?env, ?login) # ?evs) = Some (sample_enrollment ''alice'')"
    by (simp add: sample_closure_def checking_ca_def)
  from resolver_after_login [OF ok lib refl hdr, of ?evs ?env] last
  show ?thesis
    by (auto simp: newConnectOptions_def newSigner_def sample_closure_def sample_crypto_def
        sample_enrollment_def sample_contract_def sample_config_def newIdentity_def)
qed

text \<open>
  Claim C9. The default contract that \<open>main\<close> builds has the certificate of the
  configured user as its credentials and a signer made from the private key of that
  same configuration entry. A contract that the session resolver attaches, after any
  sequence of requests on a fresh process, is that default contract or has as
  credentials the certificate of one enrolment \<open>r\<close> and a signer made from the private
  key of the same \<open>r\<close>, where \<open>r\<close> is what the authority issued at a \<open>/login\<close> as the user
  the header names.
\<close>

theorem handles_bind_one_user:
  assumes dflt: "main_contract crypto cfg grpcConn adminUser = Inr contract"
    and res: "session_resolver crypto cfg grpcConn contract (serve users_init evs) x = Next c"
  shows "(\<exists>cert pem. cert_pem adminUser = Some cert \<and> key_pem adminUser = Some pem \<and>
            credentials (identity (gateway contract)) = cert \<and>
            newSigner crypto pem = Inr (signer (gateway contract)))
       \<and> (c = contract \<or>
           (\<exists>u r. x = Some u \<and> issued evs u r \<and> js_get (serve users_init evs) u = EnrollObj r \<and>
              credentials (identity (gateway c)) = certificate r \<and>
              newSigner crypto (toBytes (key r)) = Inr (signer (gateway c))))"
proof
  from dflt obtain cert pem opts where "cert_pem adminUser = Some cert" "key_pem adminUser = Some pem"
    and o: "newConnectOptions crypto grpcConn (mspID cfg) cert pem = Inr opts"
    and c: "contract = getContract cfg opts"
    by (auto simp: main_contract_def Buffer_from_def split: option.splits sum.splits)
  with newConnectOptions_InrD [OF o]
  show "\<exists>cert pem. cert_pem adminUser = Some cert \<and> key_pem adminUser = Some pem \<and>
            credentials (identity (gateway contract)) = cert \<and>
            newSigner crypto pem = Inr (signer (gateway contract))"
    by (simp add: getContract_def)
next
  from session_resolver_Next [OF res]
  show "c = contract \<or>
           (\<exists>u r. x = Some u \<and> issued evs u r \<and> js_get (serve users_init evs) u = EnrollObj r \<and>
              credentials (identity (gateway c)) = certificate r \<and>
              newSigner crypto (toBytes (key r)) = Inr (signer (gateway c)))"
  proof
    assume "c = contract"
    then show ?thesis by simp
  next
    assume "\<exists>u r opts. x = Some u \<and> js_get (serve users_init evs) u = EnrollObj r \<and>
        newConnectOptions crypto grpcConn (mspID cfg) (certificate r) (toBytes (key r)) = Inr opts \<and>
        c = getContract cfg opts"
    then obtain u r opts where x: "x = Some u"
      and g: "js_get (serve users_init evs) u = EnrollObj r"
      and o: "newConnectOptions crypto grpcConn (mspID cfg) (certificate r) (toBytes (key r)) = Inr opts"
      and c: "c = getContract cfg opts"
      by blast
    have "issued evs u r"
      using all_issued_get [OF all_issued_reachable g] .
    with x g c newConnectOptions_InrD [OF o] show ?thesis
      by (auto simp: getContract_def)
  qed
qed

text \<open>
  An instance: after alice's \<open>/login\<close>, the contract resolved for \<open>x-user: alice\<close> is not
  the default one, and its certificate and signer come from alice's enrolment.
\<close>

theorem handles_bind_one_user_witness:
  "\<exists>r. issued [(sample_closure (sample_ca (Inr ()) (Inr ''pw'') (Inr (sample_enrollment ''alice'')))
                    (sample_ledger (Inr ''pong'')),
                  \<lparr>route = PostLogin \<lparr>username = ''alice'', password = ''pw''\<rparr>, x_user = None\<rparr>)]
         ''alice'' r
     \<and> credentials (identity (gateway (sample_contract ''alice-CERT'' ''alice-KEY''))) = certificate r
     \<and> newSigner sample_crypto (toBytes (key r)) =
         Inr (signer (gateway (sample_contract ''alice-CERT'' ''alice-KEY'')))"
proof -
  let ?evs = "[(sample_closure (sample_ca (Inr ()) (Inr ''pw'') (Inr (sample_enrollment ''alice'')))
                  (sample_ledger (Inr ''pong'')),
                \<lparr>route = PostLogin \<lparr>username = ''alice'', password = ''pw''\<rparr>, x_user = None\<rparr>)]"
  have res: "session_resolver sample_crypto sample_config sample_conn
      (sample_contract ''ADMIN-CERT'' ''ADMIN-KEY'') (serve users_init ?evs) (Some ''alice'') =
      Next (sample_contract ''alice-CERT'' ''alice-KEY'')"
    by (simp add: app_def post_login_def sample_closure_def sample_ca_def js_get_js_set_same
        session_resolver_def Buffer_from_def newConnectOptions_def newSigner_def sample_crypto_def
        sample_enrollment_def sample_contract_def sample_config_def)
  have other: "sample_contract ''alice-CERT'' ''alice-KEY'' \<noteq> sample_contract ''ADMIN-CERT'' ''ADMIN-KEY''"
    by (simp add: sample_contract_def getContract_def newIdentity_def)
  from handles_bind_one_user [OF main_contract_sample res] other
  show ?thesis by auto
qed

subsection \<open>Connect options\<close>

text \<open>
  Claim C6. Whenever \<open>newConnectOptions\<close> returns, its option callbacks, called when the
  clock reads \<open>now\<close> milliseconds, give the deadlines \<open>now\<close> + 5000 for evaluate, + 15000
  for endorse, + 5000 for submit and + 60000 for commit status; and the callbacks of
  any two results are the same functions, whatever the client, the identity and the
  key.
\<close>

theorem connect_options_deadlines:
  assumes "newConnectOptions crypto c m creds pem = Inr opts"
    and "newConnectOptions crypto' c' m' creds' pem' = Inr opts'"
  shows "deadline (evaluateOptions opts now) = now + 5000
       \<and> deadline (endorseOptions opts now) = now + 15000
       \<and> deadline (submitOptions opts now) = now + 5000
       \<and> deadline (commitStatusOptions opts now) = now + 60000
       \<and> evaluateOptions opts' = evaluateOptions opts
       \<and> endorseOptions opts' = endorseOptions opts
       \<and> submitOptions opts' = submitOptions opts
       \<and> commitStatusOptions opts' = commitStatusOptions opts"
  using assms by (auto simp: newConnectOptions_def split: sum.splits)

theorem connect_options_deadlines_witness:
  "(\<exists>opts. newConnectOptions sample_crypto sample_conn ''Org1MSP'' ''alice-CERT'' ''alice-KEY''
             = Inr opts
         \<and> deadline (evaluateOptions opts 1000) = 6000
         \<and> deadline (endorseOptions opts 1000) = 16000
         \<and> deadline (submitOptions opts 1000) = 6000
         \<and> deadline (commitStatusOptions opts 1000) = 61000)"
proof -
  obtain opts :: "string ConnectOptions" where
    a: "newConnectOptions sample_crypto sample_conn ''Org1MSP'' ''alice-CERT'' ''alice-KEY'' = Inr opts"
    by (simp add: newConnectOptions_def newSigner_def sample_crypto_def)
  obtain opts' :: "string ConnectOptions" where
    b: "newConnectOptions sample_crypto sample_conn ''Org1MSP'' ''bob-CERT'' ''bob-KEY'' = Inr opts'"
    by (simp add: newConnectOptions_def newSigner_def sample_crypto_def)
  from connect_options_deadlines [OF a b, of 1000] a show ?thesis by simp
qed

subsection \<open>Initialize\<close>

text \<open>
  Claim C7. \<open>POST /init\<close> answers 200 "Initialized" for every ledger, whether the submit
  returns or throws, and leaves \<open>users\<close> alone; a throw is logged as "Already
  initialized". At startup the same: once the default contract is built, \<open>main\<close> goes on
  to listen whatever the submit did, and a throw leaves only that log line.
\<close>

theorem init_always_initialized:
  "ended (post_init lib contract us) = Responded \<lparr>status = 200, body = Text ''Initialized''\<rparr>
   \<and> users_after (post_init lib contract us) = us
   \<and> (submitTransaction lib contract (Some (JStr ''Initialize'')) [JStr ''CDC'', JStr ''$''] = Inl e
        \<longrightarrow> logged (post_init lib contract us) = [Info ''Already initialized'']
          \<and> (main_contract crypto cfg grpcConn adminUser = Inr contract \<longrightarrow>
               main crypto lib cfg grpcConn adminUser =
                 Inr \<lparr>default_contract = contract, users = users_init,
                      startup_log = [Info ''Already initialized'']\<rparr>))
   \<and> (main_contract crypto cfg grpcConn adminUser = Inr contract \<longrightarrow>
        (\<exists>srv. main crypto lib cfg grpcConn adminUser = Inr srv \<and> default_contract srv = contract))"
  by (simp add: post_init_def try_Initialize_def main_def tokenName_def tokenSymbol_def)

theorem init_always_initialized_witness:
  "ended (post_init (sample_ledger (Inl (sample_error ''already initialized'')))
            (sample_contract ''ADMIN-CERT'' ''ADMIN-KEY'') users_init) =
     Responded \<lparr>status = 200, body = Text ''Initialized''\<rparr>
   \<and> logged (post_init (sample_ledger (Inl (sample_error ''already initialized'')))
            (sample_contract ''ADMIN-CERT'' ''ADMIN-KEY'') users_init) = [Info ''Already initialized'']
   \<and> main sample_crypto (sample_ledger (Inl (sample_error ''already initialized'')))
        sample_config sample_conn sample_admin =
       Inr \<lparr>default_contract = sample_contract ''ADMIN-CERT'' ''ADMIN-KEY'', users = users_init,
            startup_log = [Info ''Already initialized'']\<rparr>"
proof -
  let ?lib = "sample_ledger (Inl (sample_error ''already initialized''))"
  let ?c = "sample_contract ''ADMIN-CERT'' ''ADMIN-KEY''"
  have thrown: "submitTransaction ?lib ?c (Some (JStr ''Initialize'')) [JStr ''CDC'', JStr ''$''] =
      Inl (sample_error ''already initialized'')"
    by (simp add: sample_ledger_def)
  from init_always_initialized [of ?lib ?c users_init "sample_error ''already initialized''"
      sample_crypto sample_config sample_conn sample_admin] thrown main_contract_sample
  show ?thesis by simp
qed

subsection \<open>The transaction proxy\<close>

text \<open>
  Claim C10. When the body of \<open>/evaluate\<close> or \<open>/submit\<close> has no \<open>args\<close>, or a falsy one
  (\<open>null\<close>, \<open>false\<close>, 0, the empty string), the transaction is called with \<open>fcn\<close> and no
  arguments, and the answer is the one for \<open>args = []\<close>.
\<close>

theorem missing_args_is_empty_list:
  assumes "args b = None \<or> (\<exists>v. args b = Some v \<and> \<not> json_truthy v)"
  shows "post_evaluate lib c us b =
           (case evaluateTransaction lib c (fcn b) [] of
              Inr responseBuffer \<Rightarrow> send_ok us responseBuffer
            | Inl e \<Rightarrow> send_400 us (details_or_message e))
       \<and> post_evaluate lib c us b = post_evaluate lib c us (b\<lparr>args := Some (JArr [])\<rparr>)
       \<and> post_submit lib c us b =
           (case submitTransaction lib c (fcn b) [] of
              Inr responseBuffer \<Rightarrow> send_ok us responseBuffer
            | Inl e \<Rightarrow> send_400 us (details_or_message e))
       \<and> post_submit lib c us b = post_submit lib c us (b\<lparr>args := Some (JArr [])\<rparr>)"
  using assms by (auto simp: post_evaluate_def post_submit_def args_or_empty_def)

theorem missing_args_is_empty_list_witness:
  "post_evaluate (sample_ledger (Inr ''pong'')) (sample_contract ''ADMIN-CERT'' ''ADMIN-KEY'')
      users_init \<lparr>fcn = Some (JStr ''Ping''), args = None\<rparr> = send_ok users_init ''pong''
   \<and> post_submit (sample_ledger (Inr ''pong'')) (sample_contract ''ADMIN-CERT'' ''ADMIN-KEY'')
      users_init \<lparr>fcn = Some (JStr ''Ping''), args = Some JNull\<rparr> = send_ok users_init ''pong''"
proof -
  have a: "args \<lparr>fcn = Some (JStr ''Ping''), args = None\<rparr> = None \<or>
      (\<exists>v. args \<lparr>fcn = Some (JStr ''Ping''), args = None\<rparr> = Some v \<and> \<not> json_truthy v)"
    by simp
  have b: "args \<lparr>fcn = Some (JStr ''Ping''), args = Some JNull\<rparr> = None \<or>
      (\<exists>v. args \<lparr>fcn = Some (JStr ''Ping''), args = Some JNull\<rparr> = Some v \<and> \<not> json_truthy v)"
    by simp
  from missing_args_is_empty_list [OF a, of "sample_ledger (Inr ''pong'')"
         "sample_contract ''ADMIN-CERT'' ''ADMIN-KEY''" users_init]
       missing_args_is_empty_list [OF b, of "sample_ledger (Inr ''pong'')"
         "sample_contract ''ADMIN-CERT'' ''ADMIN-KEY''" users_init]
  show ?thesis by (simp add: sample_ledger_def)
qed

end
